theory Spec2Isabelle
  imports Main "HOL-Library.Sublist"
begin

section \<open>EmailSender: a shallow embedding of send\_email.py and custom\_logger.py\<close>

text \<open>
  Python strings are modelled as \<open>string\<close> (character lists, code points below 256), a
  \<open>Path\<close> by its string form, and a file system by a finite map from path strings to file
  contents. Every function that logs, reads files or talks to the SMTP server takes the
  world and returns the world it leaves behind together with either its return value or
  the exception it raised: effects that happened before a raise stay in the world.
\<close>

subsection \<open>String operations of the Python runtime used by the source\<close>

text \<open>\<open>str.isspace\<close> on one character, for code points below 256.\<close>

definition isspace :: "char \<Rightarrow> bool" where
  "isspace c = ((of_char c :: nat) \<in> {9, 10, 11, 12, 13, 28, 29, 30, 31, 32, 133, 160})"

text \<open>\<open>str.strip()\<close>: leading and trailing whitespace removed.\<close>

definition strip :: "string \<Rightarrow> string" where
  "strip s = rev (dropWhile isspace (rev (dropWhile isspace s)))"

text \<open>\<open>s.partition(sep)\<close> for a one-character separator: the text before the first
  separator, the separator, and the text after it; when the separator does not occur,
  the whole text and two empty strings.\<close>

definition partition_str :: "char \<Rightarrow> string \<Rightarrow> string \<times> string \<times> string" where
  "partition_str sep s =
     (case dropWhile (\<lambda>c. c \<noteq> sep) s of
        [] \<Rightarrow> (s, [], [])
      | _ # after \<Rightarrow> (takeWhile (\<lambda>c. c \<noteq> sep) s, [sep], after))"


text \<open>\<open>sep.join(xs)\<close>.\<close>

fun join_str :: "string \<Rightarrow> string list \<Rightarrow> string" where
  "join_str sep [] = []"
| "join_str sep [x] = x"
| "join_str sep (x # y # ys) = x @ sep @ join_str sep (y # ys)"

text \<open>\<open>f.readline()\<close> on the unread text of a file opened in text mode: the line up to
  and including its newline, and what is left to read.\<close>

definition readline :: "string \<Rightarrow> string \<times> string" where
  "readline s =
     (case dropWhile (\<lambda>c. c \<noteq> CHR 0x0A) s of
        [] \<Rightarrow> (s, [])
      | nl # rest \<Rightarrow> (takeWhile (\<lambda>c. c \<noteq> CHR 0x0A) s @ [nl], rest))"

text \<open>\<open>for line in f\<close>: the lines of the text, each with its newline (the last one may
  lack it).\<close>

fun file_lines_acc :: "string \<Rightarrow> string \<Rightarrow> string list" where
  "file_lines_acc cur [] = (if cur = [] then [] else [rev cur])"
| "file_lines_acc cur (c # cs) =
     (if c = CHR 0x0A then rev (c # cur) # file_lines_acc [] cs
      else file_lines_acc (c # cur) cs)"

definition file_lines :: "string \<Rightarrow> string list" where
  "file_lines s = file_lines_acc [] s"

text \<open>\<open>str.lower()\<close> on one character, for code points below 256.\<close>

definition lower_char :: "char \<Rightarrow> char" where
  "lower_char c =
     (let n = (of_char c :: nat) in
      if (65 \<le> n \<and> n \<le> 90) \<or> (192 \<le> n \<and> n \<le> 222 \<and> n \<noteq> 215)
      then char_of (n + 32) else c)"

definition lower :: "string \<Rightarrow> string" where
  "lower s = map lower_char s"

text \<open>A value set in single quotes, as the f-strings of the source do.\<close>

definition quoted :: "string \<Rightarrow> string" where
  "quoted s = CHR 0x27 # s @ [CHR 0x27]"

subsection \<open>Exceptions, the logger and the world\<close>

type_synonym path = string

text \<open>The exceptions the program raises or lets through, each with its message
  (\<open>str(e)\<close>). All of them are subclasses of Python's \<open>Exception\<close>.\<close>

datatype exn =
    Exception string
  | ValueError string
  | NameError string
  | FileExistsError string
  | FileNotFoundError string
  | SMTPException string

fun exn_str :: "exn \<Rightarrow> string" where
  "exn_str (Exception m) = m"
| "exn_str (ValueError m) = m"
| "exn_str (NameError m) = m"
| "exn_str (FileExistsError m) = m"
| "exn_str (FileNotFoundError m) = m"
| "exn_str (SMTPException m) = m"

text \<open>The \<open>log_file\<close> argument is \<open>Union[Path, str]\<close>.\<close>

datatype log_file = Str string | PathOf path

text \<open>\<open>CustomLogger.__init__\<close>: the logger writes to standard output exactly when
  \<open>log_file\<close> is a \<open>str\<close> that lower-cases to \<open>stdout\<close>.\<close>

record CustomLogger =
  lg_log_file :: log_file
  lg_stdout :: bool

definition new_CustomLogger :: "log_file \<Rightarrow> CustomLogger" where
  "new_CustomLogger lf =
     \<lparr> lg_log_file = lf,
       lg_stdout = (case lf of Str s \<Rightarrow> lower s = ''stdout'' | PathOf _ \<Rightarrow> False) \<rparr>"

datatype level = ERROR | INFO | DEBUG

datatype log_target = Stdout | LogFile path

text \<open>One emitted log line \<open><timestamp> [<LEVEL> <function> <line>] <message>\<close>: where it
  went, and its fields. The time stamp is wall-clock time and is left out; the calling
  function and the line number of the call, which the source reads from the call stack,
  are passed by each caller.\<close>

record log_record =
  target :: log_target
  lvl :: level
  func :: string
  lineno :: nat
  message :: string

text \<open>The multipart message under construction: its headers in the order set, and its
  attached parts. A part is described by the library call that made it:
  \<open>MIMEText(_text, _subtype)\<close>, or a \<open>MIMEBase(maintype, subtype)\<close> with the payload
  and the headers the source gave it.\<close>

datatype mime_part =
    MIMEText string string
  | MIMEBase string string string "(string \<times> string) list"

record MIMEMultipart =
  headers :: "(string \<times> string) list"
  parts :: "mime_part list"

text \<open>The calls made on the SMTP client, in order. \<open>message.as_string()\<close> draws a
  random boundary, so the text handed to \<open>sendmail\<close> is kept as the message it
  serialises.\<close>

datatype smtp_event =
    Connect string nat
  | Starttls
  | Login string string
  | Sendmail string "string list" MIMEMultipart
  | Quit

text \<open>
  The world: the files (path to contents), the log lines emitted so far, the SMTP calls
  made so far, and two things the program cannot control: how the SMTP server answers a
  call given the calls so far (\<open>None\<close>: it succeeds; \<open>Some e\<close>: the client raises
  \<open>e\<close>), and the traceback text \<open>format_exc()\<close> gives for an exception.
  Log lines are kept as a trace of their own, apart from the files the program reads.
\<close>

record world =
  fs :: "path \<rightharpoonup> string"
  log :: "log_record list"
  net :: "smtp_event list"
  smtp_server :: "smtp_event list \<Rightarrow> exn option"
  format_exc :: "exn \<Rightarrow> string"

definition log_target_of :: "CustomLogger \<Rightarrow> log_target" where
  "log_target_of lg =
     (if lg_stdout lg then Stdout
      else LogFile (case lg_log_file lg of Str s \<Rightarrow> s | PathOf p \<Rightarrow> p))"

definition emit :: "CustomLogger \<Rightarrow> level \<Rightarrow> string \<Rightarrow> nat \<Rightarrow> string \<Rightarrow> world \<Rightarrow> world" where
  "emit lg l f n m w =
     w\<lparr>log := log w @ [\<lparr> target = log_target_of lg, lvl = l, func = f, lineno = n, message = m \<rparr>]\<rparr>"

definition lg_error :: "CustomLogger \<Rightarrow> string \<Rightarrow> nat \<Rightarrow> string \<Rightarrow> world \<Rightarrow> world" where
  "lg_error lg f n m w = emit lg ERROR f n m w"

definition lg_info :: "CustomLogger \<Rightarrow> string \<Rightarrow> nat \<Rightarrow> string \<Rightarrow> world \<Rightarrow> world" where
  "lg_info lg f n m w = emit lg INFO f n m w"

definition lg_debug :: "CustomLogger \<Rightarrow> string \<Rightarrow> nat \<Rightarrow> string \<Rightarrow> world \<Rightarrow> world" where
  "lg_debug lg f n m w = emit lg DEBUG f n m w"

text \<open>\<open>os.path.isfile\<close>.\<close>

definition isfile :: "world \<Rightarrow> path \<Rightarrow> bool" where
  "isfile w p = (fs w p \<noteq> None)"

subsection \<open>get\_secrets\<close>

text \<open>The body of the loop \<open>for line in f\<close> (lines 61 to 65): each line that starts
  with a tag overwrites that tag's variable.\<close>

fun scan_secrets :: "string \<Rightarrow> string \<Rightarrow> string list \<Rightarrow> string \<times> string \<Rightarrow> string \<times> string" where
  "scan_secrets username_tag password_tag [] (username, password) = (username, password)"
| "scan_secrets username_tag password_tag (line # rest) (username, password) =
     (let username' = (if prefix username_tag line
                       then strip (snd (snd (partition_str CHR '':'' line))) else username);
          password' = (if prefix password_tag line
                       then strip (snd (snd (partition_str CHR '':'' line))) else password)
      in scan_secrets username_tag password_tag rest (username', password'))"

text \<open>The message \<open>open\<close> gives when the file is not there.\<close>

definition no_such_file_msg :: "path \<Rightarrow> string" where
  "no_such_file_msg p = ''[Errno 2] No such file or directory: '' @ quoted p"

definition not_exist_msg :: "path \<Rightarrow> string" where
  "not_exist_msg p = ''File '' @ quoted p @ '' does not exist!''"

definition username_not_found_msg :: "string \<Rightarrow> path \<Rightarrow> string" where
  "username_not_found_msg tag p =
     ''Username tag: '' @ quoted tag @ '' not found in '' @ quoted p @ ''!''"

definition password_not_found_msg :: "string \<Rightarrow> path \<Rightarrow> string" where
  "password_not_found_msg tag p =
     ''Password tag: '' @ quoted tag @ '' not found in '' @ quoted p @ ''!''"

definition get_secrets ::
  "path \<Rightarrow> string \<Rightarrow> string \<Rightarrow> log_file \<Rightarrow> world \<Rightarrow> (exn + string \<times> string) \<times> world" where
  "get_secrets secrets_file username_tag password_tag log_file w =
     (let lg = new_CustomLogger log_file;
          w1 = lg_info lg ''get_secrets'' 53
                 (''Loading secrets for '' @ quoted username_tag @ '' from ''
                    @ quoted secrets_file @ ''...'') w
      in if \<not> isfile w1 secrets_file
         then (Inl (Exception (not_exist_msg secrets_file)),
               lg_error lg ''get_secrets'' 56 (not_exist_msg secrets_file) w1)
         else
           (case fs w1 secrets_file of
              None \<Rightarrow> (Inl (FileNotFoundError (no_such_file_msg secrets_file)), w1)
            | Some content \<Rightarrow>
                (case scan_secrets username_tag password_tag (file_lines content) ([], []) of
                   (username, password) \<Rightarrow>
                     if username = []
                     then (Inl (ValueError (username_not_found_msg username_tag secrets_file)), w1)
                     else if password = []
                     then (Inl (ValueError (password_not_found_msg password_tag secrets_file)), w1)
                     else (Inr (username, password),
                           lg_info lg ''get_secrets'' 77 ''Secrets loaded successfully!'' w1))))"

subsection \<open>Library calls made by send\_email\<close>

text \<open>\<open>base64.encodebytes\<close>, which \<open>encoders.encode_base64\<close> applies to the payload:
  the bytes are cut into pieces of 57, and each piece is encoded by
  \<open>binascii.b2a_base64\<close> (standard alphabet, \<open>=\<close> padding, a newline at the end).\<close>

definition b64_alphabet :: string where
  "b64_alphabet = ''ABCDEFGHIJKLMNOPQRSTUVWXYZabcdefghijklmnopqrstuvwxyz0123456789+/''"

definition b64_char :: "nat \<Rightarrow> char" where
  "b64_char n = b64_alphabet ! (n mod 64)"

fun b64_groups :: "nat list \<Rightarrow> string" where
  "b64_groups [] = []"
| "b64_groups [a] =
     [b64_char (a div 4), b64_char ((a mod 4) * 16), CHR ''='', CHR ''='']"
| "b64_groups [a, b] =
     [b64_char (a div 4), b64_char ((a mod 4) * 16 + b div 16),
      b64_char ((b mod 16) * 4), CHR ''='']"
| "b64_groups (a # b # c # rest) =
     [b64_char (a div 4), b64_char ((a mod 4) * 16 + b div 16),
      b64_char ((b mod 16) * 4 + c div 64), b64_char (c mod 64)] @ b64_groups rest"

definition b2a_base64 :: "string \<Rightarrow> string" where
  "b2a_base64 s = b64_groups (map of_char s) @ [CHR 0x0A]"

function encodebytes :: "string \<Rightarrow> string" where
  "encodebytes s = (if s = [] then [] else b2a_base64 (take 57 s) @ encodebytes (drop 57 s))"
  by pat_completeness auto
termination
  by (relation "measure length") auto

declare encodebytes.simps [simp del]

text \<open>\<open>Path.name\<close>: the final component of a path, on the string form of the path.\<close>

definition path_name :: "path \<Rightarrow> string" where
  "path_name p = (if p = ''.'' then [] else rev (takeWhile (\<lambda>c. c \<noteq> CHR ''/'') (rev p)))"

text \<open>One call on the SMTP client: it is recorded, and the server decides whether the
  client raises.\<close>

definition smtp_call :: "smtp_event \<Rightarrow> world \<Rightarrow> exn option \<times> world" where
  "smtp_call ev w = (smtp_server w (net w @ [ev]), w\<lparr>net := net w @ [ev]\<rparr>)"

subsection \<open>send\_email\<close>

text \<open>The loop over the attachments (lines 143 to 153): each file is read whole,
  base64-encoded into an \<open>application/octet-stream\<close> part that carries the file's name,
  and attached. A file that cannot be opened ends the loop with the exception.\<close>

fun attach_all ::
  "CustomLogger \<Rightarrow> path list \<Rightarrow> MIMEMultipart \<Rightarrow> world \<Rightarrow> (exn + MIMEMultipart) \<times> world" where
  "attach_all lg [] msg w = (Inr msg, w)"
| "attach_all lg (attachment # rest) msg w =
     (let w1 = lg_debug lg ''send_email'' 144
                 (''Attaching '' @ quoted attachment @ '' to email....'') w
      in case fs w1 attachment of
           None \<Rightarrow> (Inl (FileNotFoundError (no_such_file_msg attachment)), w1)
         | Some content \<Rightarrow>
             (let part = MIMEBase ''application'' ''octet-stream'' (encodebytes content)
                           [(''Content-Transfer-Encoding'', ''base64''),
                            (''Content-Disposition'',
                             ''attachment; filename='' @ path_name attachment)]
              in attach_all lg rest (msg\<lparr>parts := parts msg @ [part]\<rparr>) w1))"

text \<open>The block \<open>with SMTP("smtp.gmail.com", 587) as server\<close> (lines 157 to 160). When
  the constructor raises, nothing else happens. Otherwise the body runs until a call
  raises, and leaving the block sends \<open>QUIT\<close>; an exception from that replaces the
  body's.\<close>

definition smtp_session ::
  "string \<Rightarrow> string \<Rightarrow> string list \<Rightarrow> MIMEMultipart \<Rightarrow> world \<Rightarrow> (exn + unit) \<times> world" where
  "smtp_session username password recipients text w =
     (case smtp_call (Connect ''smtp.gmail.com'' 587) w of
        (Some e, w1) \<Rightarrow> (Inl e, w1)
      | (None, w1) \<Rightarrow>
          (case (case smtp_call Starttls w1 of
                   (Some e, w2) \<Rightarrow> (Some e, w2)
                 | (None, w2) \<Rightarrow>
                     (case smtp_call (Login username password) w2 of
                        (Some e, w3) \<Rightarrow> (Some e, w3)
                      | (None, w3) \<Rightarrow> smtp_call (Sendmail username recipients text) w3)) of
             (body, w4) \<Rightarrow>
               (case smtp_call Quit w4 of
                  (Some e, w5) \<Rightarrow> (Inl e, w5)
                | (None, w5) \<Rightarrow>
                    (case body of Some e \<Rightarrow> (Inl e, w5) | None \<Rightarrow> (Inr (), w5)))))"

definition send_email ::
  "string list \<Rightarrow> string \<Rightarrow> string \<Rightarrow> path \<Rightarrow> string \<Rightarrow> string \<Rightarrow> log_file \<Rightarrow> bool \<Rightarrow>
   path list option \<Rightarrow> world \<Rightarrow> (exn + unit) \<times> world" where
  "send_email recipients subject body secrets_file username_tag password_tag log_file html
     attachments w =
     (let lg = new_CustomLogger log_file
      in case get_secrets secrets_file username_tag password_tag log_file w of
           (Inl e, w1) \<Rightarrow> (Inl e, w1)
         | (Inr (username, password), w1) \<Rightarrow>
             (let recipients' = (if recipients = [''DEBUG''] then [username] else recipients);
                  w2 = lg_info lg ''send_email'' 132
                         (''Creating new email to recipient(s): ''
                            @ join_str '', '' recipients' @ ''...'') w1;
                  message = \<lparr> headers = [(''From'', username),
                                         (''To'', join_str '', '' recipients'),
                                         (''Subject'', subject)],
                              parts = [if html then MIMEText body ''html''
                                       else MIMEText body ''plain''] \<rparr>
              in case attach_all lg (case attachments of None \<Rightarrow> [] | Some as \<Rightarrow> as)
                        message w2 of
                   (Inl e, w3) \<Rightarrow> (Inl e, w3)
                 | (Inr text, w3) \<Rightarrow>
                     (case smtp_session username password recipients' text w3 of
                        (Inl e, w4) \<Rightarrow> (Inl e, w4)
                      | (Inr u, w4) \<Rightarrow>
                          (Inr (), lg_info lg ''send_email'' 162
                                     ''Email sent successfully!'' w4))))"

subsection \<open>test\_send\_email and the command line\<close>

text \<open>The parsed command line, the module-level variable \<open>args\<close>. It is bound only when
  the module runs as a script: for a caller that imports the module it is \<open>None\<close> here,
  and reading it raises \<open>NameError\<close>.\<close>

record args =
  args_option :: "string option"
  args_file :: "path option"
  args_attachments :: "path list option"
  args_secrets_file :: path
  args_username_tag :: string
  args_password_tag :: string
  args_include_attachment :: bool
  args_log_file :: string

definition exception_occurred_msg :: "world \<Rightarrow> exn \<Rightarrow> string" where
  "exception_occurred_msg w e =
     ''Exception occurred: '' @ exn_str e @ [CHR 0x0A] @ strip (format_exc w e)"

definition test_send_email ::
  "args option \<Rightarrow> path \<Rightarrow> string \<Rightarrow> string \<Rightarrow> log_file \<Rightarrow> bool \<Rightarrow> world \<Rightarrow> (exn + unit) \<times> world" where
  "test_send_email global_args secrets_file username_tag password_tag log_file
     include_attachment w =
     (let lg = new_CustomLogger log_file;
          w1 = lg_info lg ''test_send_email'' 192 ''====== INITIALIZING... ======'' w;
          w2 = lg_info lg ''test_send_email'' 194 ''Attempting to send test email...'' w1
      in if include_attachment
         then
           (if fs w2 ''test.txt'' \<noteq> None
            then (Inl (FileExistsError (''[Errno 17] File exists: '' @ quoted ''test.txt'')), w2)
            else
              (let w3 = w2\<lparr>fs := (fs w2)(''test.txt'' \<mapsto> ''This is a test attachment.\<newline>'')\<rparr>
               in case send_email [''DEBUG''] ''Test Email'' ''This is a test.'' secrets_file
                         username_tag password_tag log_file False (Some [''test.txt'']) w3 of
                    (r, w4) \<Rightarrow>
                      (let w5 = (case r of
                                   Inl e \<Rightarrow> lg_error lg ''test_send_email'' 214
                                              (exception_occurred_msg w4 e) w4
                                 | Inr u \<Rightarrow> w4)
                       in if fs w5 ''test.txt'' = None
                          then (Inl (FileNotFoundError (no_such_file_msg ''test.txt'')), w5)
                          else (Inr (),
                                lg_info lg ''test_send_email'' 234 ''====== TERMINATED ======''
                                  (w5\<lparr>fs := (fs w5)(''test.txt'' := None)\<rparr>)))))
         else
           (case (case global_args of
                    None \<Rightarrow> (Inl (NameError (''name '' @ quoted ''args'' @ '' is not defined'')), w2)
                  | Some a \<Rightarrow>
                      send_email [''DEBUG''] ''Test Email'' ''This is a test.''
                        (args_secrets_file a) username_tag password_tag log_file False None w2) of
              (r, w3) \<Rightarrow>
                (let w4 = (case r of
                             Inl e \<Rightarrow> lg_error lg ''test_send_email'' 232
                                        (exception_occurred_msg w3 e) w3
                           | Inr u \<Rightarrow> w3)
                 in (Inr (), lg_info lg ''test_send_email'' 234 ''====== TERMINATED ======'' w4))))"

text \<open>Line 347: the log destination chosen from \<open>--log-file\<close>.\<close>

definition main_log_file :: "args \<Rightarrow> log_file" where
  "main_log_file a =
     (if args_log_file a = ''stdout'' then Str ''stdout'' else PathOf (args_log_file a))"



definition main_test :: "args \<Rightarrow> world \<Rightarrow> (exn + unit) \<times> world" where
  "main_test a w =
     test_send_email (Some a) (args_secrets_file a) (args_username_tag a)
       (args_password_tag a) (main_log_file a) (args_include_attachment a) w"

section \<open>Notions used to state the properties\<close>

text \<open>The value a secrets line carries, in the words of the specification: everything
  after the first \<open>:\<close>, trimmed of surrounding whitespace (nothing when the line has no
  \<open>:\<close>).\<close>

definition value_after_colon :: "string \<Rightarrow> string" where
  "value_after_colon line = strip (tl (dropWhile (\<lambda>c. c \<noteq> CHR '':'') line))"

text \<open>The value of the last line that begins with the tag; empty when no line does.\<close>

definition last_match_value :: "string \<Rightarrow> string list \<Rightarrow> string" where
  "last_match_value tag lines =
     (case filter (prefix tag) lines of [] \<Rightarrow> [] | m # ms \<Rightarrow> value_after_colon (last (m # ms)))"

text \<open>The part the source builds for one attachment with the given contents.\<close>

definition attachment_part :: "path \<Rightarrow> string \<Rightarrow> mime_part" where
  "attachment_part p content =
     MIMEBase ''application'' ''octet-stream'' (encodebytes content)
       [(''Content-Transfer-Encoding'', ''base64''),
        (''Content-Disposition'', ''attachment; filename='' @ path_name p)]"

text \<open>The SMTP calls made between two worlds.\<close>

definition new_events :: "world \<Rightarrow> world \<Rightarrow> smtp_event list" where
  "new_events w w' = drop (length (net w)) (net w')"

text \<open>The recipients after the \<open>["DEBUG"]\<close> substitution, and the attachments argument
  as a list.\<close>

definition effective_recipients :: "string list \<Rightarrow> string \<Rightarrow> string list" where
  "effective_recipients recipients username =
     (if recipients = [''DEBUG''] then [username] else recipients)"

definition attachment_list :: "path list option \<Rightarrow> path list" where
  "attachment_list attachments = (case attachments of None \<Rightarrow> [] | Some as \<Rightarrow> as)"

subsection \<open>Concrete worlds and files for the examples\<close>






text \<open>A world with a secrets file for \<open>alice@example.com\<close> and one more file, and the
  message \<open>send_email\<close> composes there for the subject \<open>Hi\<close>, the HTML body
  \<open><b>x</b>\<close> and that file as attachment.\<close>

definition secrets_alice :: string where
  "secrets_alice = ''gmail_username: alice@example.com\<newline>gmail_password: s3cr3t\<newline>''"

definition alice_world :: world where
  "alice_world =
     \<lparr> fs = [''secrets.txt'' \<mapsto> secrets_alice, ''notes/report.txt'' \<mapsto> ''Hello!''],
       log = [], net = [], smtp_server = (\<lambda>evs. None), format_exc = (\<lambda>e. []) \<rparr>"

definition debug_message :: MIMEMultipart where
  "debug_message =
     \<lparr> headers = [(''From'', ''alice@example.com''), (''To'', ''alice@example.com''),
                  (''Subject'', ''Hi'')],
       parts = [MIMEText ''<b>x</b>'' ''html'',
                MIMEBase ''application'' ''octet-stream'' ''SGVsbG8h\<newline>''
                  [(''Content-Transfer-Encoding'', ''base64''),
                   (''Content-Disposition'', ''attachment; filename=report.txt'')]] \<rparr>"







definition script_args :: args where
  "script_args =
     \<lparr> args_option = Some ''test'', args_file = None, args_attachments = None,
       args_secrets_file = ''secrets.txt'', args_username_tag = ''gmail_username'',
       args_password_tag = ''gmail_password'', args_include_attachment = False,
       args_log_file = ''stdout'' \<rparr>"

definition test_message :: MIMEMultipart where
  "test_message =
     \<lparr> headers = [(''From'', ''alice@example.com''), (''To'', ''alice@example.com''),
                  (''Subject'', ''Test Email'')],
       parts = [MIMEText ''This is a test.'' ''plain''] \<rparr>"

section \<open>What each operation leaves unchanged, and what it adds\<close>

lemma strip_Nil [simp]: "strip [] = []"
  by (simp add: strip_def)


lemma last_match_value_Nil [simp]: "last_match_value tag [] = []"
  by (simp add: last_match_value_def)




lemma emit_fields [simp]:
  "fs (emit lg l f n m w) = fs w"
  "net (emit lg l f n m w) = net w"
  "smtp_server (emit lg l f n m w) = smtp_server w"
  "format_exc (emit lg l f n m w) = format_exc w"
  "log (emit lg l f n m w) = log w @ [\<lparr> target = log_target_of lg, lvl = l, func = f, lineno = n, message = m \<rparr>]"
  by (simp_all add: emit_def)

lemma get_secrets_frame:
  "fs (snd (get_secrets sf ut pt lf w)) = fs w"
  "net (snd (get_secrets sf ut pt lf w)) = net w"
  "smtp_server (snd (get_secrets sf ut pt lf w)) = smtp_server w"
  "format_exc (snd (get_secrets sf ut pt lf w)) = format_exc w"
  by (simp_all add: get_secrets_def Let_def lg_info_def lg_error_def isfile_def
        split: option.splits prod.splits)

lemma attach_all_frame:
  "fs (snd (attach_all lg atts msg w)) = fs w \<and>
   net (snd (attach_all lg atts msg w)) = net w \<and>
   smtp_server (snd (attach_all lg atts msg w)) = smtp_server w \<and>
   format_exc (snd (attach_all lg atts msg w)) = format_exc w"
  by (induction atts arbitrary: msg w) (simp_all add: Let_def lg_debug_def split: option.splits)

lemma attach_all_result:
  "fst (attach_all lg atts msg w) = Inr msg' \<Longrightarrow>
   (\<forall>a \<in> set atts. fs w a \<noteq> None) \<and>
   headers msg' = headers msg \<and>
   parts msg' = parts msg @ map (\<lambda>a. attachment_part a (the (fs w a))) atts"
proof (induction atts arbitrary: msg w)
  case Nil
  then show ?case by simp
next
  case (Cons a atts)
  from Cons.prems obtain content where c: "fs w a = Some content"
    by (cases "fs w a") (simp_all add: Let_def lg_debug_def)
  let ?w1 = "lg_debug lg ''send_email'' 144 (''Attaching '' @ quoted a @ '' to email....'') w"
  let ?msg1 = "msg\<lparr>parts := parts msg @ [attachment_part a content]\<rparr>"
  have step: "attach_all lg (a # atts) msg w = attach_all lg atts ?msg1 ?w1"
    using c by (simp add: Let_def lg_debug_def attachment_part_def)
  have "fst (attach_all lg atts ?msg1 ?w1) = Inr msg'"
    using Cons.prems step by simp
  from Cons.IH [OF this] show ?case
    using c by (simp add: lg_debug_def)
qed

lemma attach_all_ok:
  "(\<forall>a \<in> set atts. fs w a \<noteq> None) \<Longrightarrow> \<exists>msg'. fst (attach_all lg atts msg w) = Inr msg'"
  by (induction atts arbitrary: msg w) (auto simp add: Let_def lg_debug_def)

lemma smtp_call_frame [simp]:
  "fs (snd (smtp_call ev w)) = fs w"
  "log (snd (smtp_call ev w)) = log w"
  "net (snd (smtp_call ev w)) = net w @ [ev]"
  "smtp_server (snd (smtp_call ev w)) = smtp_server w"
  "format_exc (snd (smtp_call ev w)) = format_exc w"
  by (simp_all add: smtp_call_def)


lemma smtp_session_events:
  "\<exists>evs. net (snd (smtp_session u p r t w)) = net w @ evs \<and>
     evs \<noteq> [] \<and>
     set evs \<subseteq> {Connect ''smtp.gmail.com'' 587, Starttls, Login u p, Sendmail u r t, Quit} \<and>
     (fst (smtp_session u p r t w) = Inr () \<longrightarrow>
        evs = [Connect ''smtp.gmail.com'' 587, Starttls, Login u p, Sendmail u r t, Quit])"
  by (auto simp add: smtp_session_def smtp_call_def split: prod.splits option.splits)

lemma send_email_secrets_fail:
  assumes "fst (get_secrets sf ut pt lf w) = Inl e"
  shows "send_email rs subj body sf ut pt lf html atts w = (Inl e, snd (get_secrets sf ut pt lf w))"
  using assms
  by (cases "get_secrets sf ut pt lf w") (simp add: send_email_def)

lemma send_email_new_events:
  assumes gs: "fst (get_secrets sf ut pt lf w) = Inr (u, p)"
  shows "\<exists>evs. net (snd (send_email rs subj body sf ut pt lf html atts w)) = net w @ evs \<and>
     (evs \<noteq> [] \<longrightarrow>
        (\<exists>t. set evs \<subseteq> {Connect ''smtp.gmail.com'' 587, Starttls, Login u p,
                          Sendmail u (effective_recipients rs u) t, Quit} \<and>
             headers t = [(''From'', u),
                          (''To'', join_str '', '' (effective_recipients rs u)),
                          (''Subject'', subj)] \<and>
             parts t = (if html then MIMEText body ''html'' else MIMEText body ''plain'')
                         # map (\<lambda>a. attachment_part a (the (fs w a))) (attachment_list atts) \<and>
             (\<forall>a \<in> set (attachment_list atts). fs w a \<noteq> None) \<and>
             (fst (send_email rs subj body sf ut pt lf html atts w) = Inr () \<longrightarrow>
                evs = [Connect ''smtp.gmail.com'' 587, Starttls, Login u p,
                       Sendmail u (effective_recipients rs u) t, Quit]))) \<and>
     (fst (send_email rs subj body sf ut pt lf html atts w) = Inr () \<longrightarrow> evs \<noteq> [])"
proof -
  obtain w1 where g: "get_secrets sf ut pt lf w = (Inr (u, p), w1)"
    using gs by (cases "get_secrets sf ut pt lf w") simp
  have w1: "fs w1 = fs w" "net w1 = net w"
    using get_secrets_frame(1,2) [of sf ut pt lf w] g by simp_all
  let ?lg = "new_CustomLogger lf"
  let ?rs = "effective_recipients rs u"
  let ?w2 = "lg_info ?lg ''send_email'' 132
               (''Creating new email to recipient(s): '' @ join_str '', '' ?rs @ ''...'') w1"
  let ?m = "\<lparr> headers = [(''From'', u), (''To'', join_str '', '' ?rs), (''Subject'', subj)],
              parts = [if html then MIMEText body ''html'' else MIMEText body ''plain''] \<rparr>"
  let ?A = "attach_all ?lg (attachment_list atts) ?m ?w2"
  have w2: "fs ?w2 = fs w" "net ?w2 = net w"
    using w1 by (simp_all add: lg_info_def)
  have a_frame: "fs (snd ?A) = fs w" "net (snd ?A) = net w"
    using attach_all_frame [of ?lg "attachment_list atts" ?m ?w2] w2 by simp_all
  show ?thesis
  proof (cases "fst ?A")
    case (Inl e)
    then have "send_email rs subj body sf ut pt lf html atts w = (Inl e, snd ?A)"
      using g
      by (cases ?A)
         (simp add: send_email_def Let_def effective_recipients_def attachment_list_def)
    then show ?thesis using a_frame by simp
  next
    case (Inr t)
    from attach_all_result [OF Inr]
    have t: "\<forall>a \<in> set (attachment_list atts). fs w a \<noteq> None"
      "headers t = [(''From'', u), (''To'', join_str '', '' ?rs), (''Subject'', subj)]"
      "parts t = (if html then MIMEText body ''html'' else MIMEText body ''plain'')
                   # map (\<lambda>a. attachment_part a (the (fs w a))) (attachment_list atts)"
      using w2 by simp_all
    let ?S = "smtp_session u p ?rs t (snd ?A)"
    have se: "send_email rs subj body sf ut pt lf html atts w =
      (case ?S of (Inl e, w4) \<Rightarrow> (Inl e, w4)
       | (Inr x, w4) \<Rightarrow> (Inr (), lg_info ?lg ''send_email'' 162 ''Email sent successfully!'' w4))"
      using g Inr
      by (cases ?A)
         (simp add: send_email_def Let_def effective_recipients_def attachment_list_def)
    have net_eq: "net (snd (send_email rs subj body sf ut pt lf html atts w)) = net (snd ?S)"
      and fst_eq: "fst (send_email rs subj body sf ut pt lf html atts w) = fst ?S"
      by (simp_all add: se lg_info_def split: prod.splits sum.splits)
    from smtp_session_events [of u p ?rs t "snd ?A"]
    obtain evs where evs: "net (snd ?S) = net (snd ?A) @ evs" "evs \<noteq> []"
      "set evs \<subseteq> {Connect ''smtp.gmail.com'' 587, Starttls, Login u p, Sendmail u ?rs t, Quit}"
      "fst ?S = Inr () \<longrightarrow> evs = [Connect ''smtp.gmail.com'' 587, Starttls, Login u p, Sendmail u ?rs t, Quit]"
      by blast
    show ?thesis
      using evs t a_frame net_eq fst_eq by auto
  qed
qed

lemma send_email_sendmail:
  assumes ev: "Sendmail s r t \<in> set (new_events w
                  (snd (send_email rs subj body sf ut pt lf html atts w)))"
  shows "\<exists>u p. fst (get_secrets sf ut pt lf w) = Inr (u, p) \<and> s = u \<and>
           r = effective_recipients rs u \<and>
           headers t = [(''From'', u), (''To'', join_str '', '' r), (''Subject'', subj)] \<and>
           parts t = (if html then MIMEText body ''html'' else MIMEText body ''plain'')
                       # map (\<lambda>a. attachment_part a (the (fs w a))) (attachment_list atts) \<and>
           (\<forall>a \<in> set (attachment_list atts). fs w a \<noteq> None)"
proof (cases "fst (get_secrets sf ut pt lf w)")
  case (Inl e)
  have "net (snd (send_email rs subj body sf ut pt lf html atts w)) = net w"
    using send_email_secrets_fail [OF Inl] get_secrets_frame(2) by simp
  then show ?thesis using ev by (simp add: new_events_def)
next
  case (Inr up)
  obtain u p where up: "up = (u, p)" by (cases up)
  have g: "fst (get_secrets sf ut pt lf w) = Inr (u, p)" using Inr up by simp
  from send_email_new_events [OF g, of rs subj body html atts]
  obtain evs where evs:
    "net (snd (send_email rs subj body sf ut pt lf html atts w)) = net w @ evs"
    "evs \<noteq> [] \<longrightarrow>
        (\<exists>t. set evs \<subseteq> {Connect ''smtp.gmail.com'' 587, Starttls, Login u p,
                          Sendmail u (effective_recipients rs u) t, Quit} \<and>
             headers t = [(''From'', u),
                          (''To'', join_str '', '' (effective_recipients rs u)),
                          (''Subject'', subj)] \<and>
             parts t = (if html then MIMEText body ''html'' else MIMEText body ''plain'')
                         # map (\<lambda>a. attachment_part a (the (fs w a))) (attachment_list atts) \<and>
             (\<forall>a \<in> set (attachment_list atts). fs w a \<noteq> None) \<and>
             (fst (send_email rs subj body sf ut pt lf html atts w) = Inr () \<longrightarrow>
                evs = [Connect ''smtp.gmail.com'' 587, Starttls, Login u p,
                       Sendmail u (effective_recipients rs u) t, Quit]))"
    by blast
  have mem: "Sendmail s r t \<in> set evs"
    using ev evs(1) by (simp add: new_events_def)
  then have "evs \<noteq> []" by auto
  with evs(2) obtain t' where t':
    "set evs \<subseteq> {Connect ''smtp.gmail.com'' 587, Starttls, Login u p,
                 Sendmail u (effective_recipients rs u) t', Quit}"
    "headers t' = [(''From'', u), (''To'', join_str '', '' (effective_recipients rs u)),
                   (''Subject'', subj)]"
    "parts t' = (if html then MIMEText body ''html'' else MIMEText body ''plain'')
                  # map (\<lambda>a. attachment_part a (the (fs w a))) (attachment_list atts)"
    "\<forall>a \<in> set (attachment_list atts). fs w a \<noteq> None"
    by blast
  from mem t'(1) have "s = u \<and> r = effective_recipients rs u \<and> t = t'" by auto
  then show ?thesis using g t'(2,3,4) by simp
qed

lemma send_email_success:
  assumes g: "fst (get_secrets sf ut pt lf w) = Inr (u, p)"
    and ok: "fst (send_email rs subj body sf ut pt lf html atts w) = Inr ()"
  shows "\<exists>t. new_events w (snd (send_email rs subj body sf ut pt lf html atts w)) =
           [Connect ''smtp.gmail.com'' 587, Starttls, Login u p,
            Sendmail u (effective_recipients rs u) t, Quit]"
  using send_email_new_events [OF g, of rs subj body html atts] ok
  by (auto simp add: new_events_def)

section \<open>The secrets loader\<close>













section \<open>Composing and sending\<close>

lemma debug_send_events:
  "new_events alice_world
     (snd (send_email [''DEBUG''] ''Hi'' ''<b>x</b>'' ''secrets.txt'' ''gmail_username''
             ''gmail_password'' (Str ''stdout'') True (Some [''notes/report.txt''])
             alice_world))
   = [Connect ''smtp.gmail.com'' 587, Starttls, Login ''alice@example.com'' ''s3cr3t'',
      Sendmail ''alice@example.com'' [''alice@example.com''] debug_message, Quit]"
  by code_simp

lemma debug_send_secrets:
  "fst (get_secrets ''secrets.txt'' ''gmail_username'' ''gmail_password'' (Str ''stdout'')
          alice_world) = Inr (''alice@example.com'', ''s3cr3t'')"
  by code_simp

text \<open>
  Claim C5. Let \<open>username\<close> be the sender \<open>get_secrets\<close> resolves. Every \<open>sendmail\<close>
  call that \<open>send_email\<close> makes submits to \<open>[username]\<close> when the recipients argument is
  \<open>["DEBUG"]\<close> and to the recipients argument unchanged otherwise, and the message's
  \<open>To\<close> header is that same list joined by \<open>", "\<close>. When \<open>send_email\<close> returns normally,
  it made exactly one such call, inside one SMTP session.
\<close>

theorem send_email_effective_recipients:
  assumes "fst (get_secrets secrets_file username_tag password_tag log_file w)
             = Inr (username, password)"
  shows "(\<forall>sender rcpts text.
            Sendmail sender rcpts text \<in> set (new_events w
               (snd (send_email recipients subject body secrets_file username_tag password_tag
                       log_file html attachments w))) \<longrightarrow>
            rcpts = (if recipients = [''DEBUG''] then [username] else recipients) \<and>
            map_of (headers text) ''To'' = Some (join_str '', '' rcpts))
       \<and> (fst (send_email recipients subject body secrets_file username_tag password_tag
                  log_file html attachments w) = Inr () \<longrightarrow>
            (\<exists>text. new_events w
               (snd (send_email recipients subject body secrets_file username_tag password_tag
                       log_file html attachments w)) =
               [Connect ''smtp.gmail.com'' 587, Starttls, Login username password,
                Sendmail username
                  (if recipients = [''DEBUG''] then [username] else recipients) text,
                Quit]))"
proof (intro conjI allI impI)
  fix sender rcpts msg
  assume "Sendmail sender rcpts msg \<in> set (new_events w
               (snd (send_email recipients subject body secrets_file username_tag password_tag
                       log_file html attachments w)))"
  from send_email_sendmail [OF this] assms
  show "rcpts = (if recipients = [''DEBUG''] then [username] else recipients)"
    and "map_of (headers msg) ''To'' = Some (join_str '', '' rcpts)"
    by (auto simp add: effective_recipients_def)
next
  assume "fst (send_email recipients subject body secrets_file username_tag password_tag
                  log_file html attachments w) = Inr ()"
  from send_email_success [OF assms this]
  show "\<exists>text. new_events w
               (snd (send_email recipients subject body secrets_file username_tag password_tag
                       log_file html attachments w)) =
               [Connect ''smtp.gmail.com'' 587, Starttls, Login username password,
                Sendmail username
                  (if recipients = [''DEBUG''] then [username] else recipients) text,
                Quit]"
    by (simp add: effective_recipients_def)
qed

theorem send_email_effective_recipients_witness:
  "fst (get_secrets ''secrets.txt'' ''gmail_username'' ''gmail_password'' (Str ''stdout'')
          alice_world) = Inr (''alice@example.com'', ''s3cr3t'')
   \<and> Sendmail ''alice@example.com'' [''alice@example.com''] debug_message
       \<in> set (new_events alice_world
            (snd (send_email [''DEBUG''] ''Hi'' ''<b>x</b>'' ''secrets.txt'' ''gmail_username''
                    ''gmail_password'' (Str ''stdout'') True (Some [''notes/report.txt''])
                    alice_world)))
   \<and> [''alice@example.com'']
       = (if [''DEBUG''] = [''DEBUG''] then [''alice@example.com''] else [''DEBUG''])
   \<and> map_of (headers debug_message) ''To'' = Some (join_str '', '' [''alice@example.com''])"
proof -
  have ev: "Sendmail ''alice@example.com'' [''alice@example.com''] debug_message
       \<in> set (new_events alice_world
            (snd (send_email [''DEBUG''] ''Hi'' ''<b>x</b>'' ''secrets.txt'' ''gmail_username''
                    ''gmail_password'' (Str ''stdout'') True (Some [''notes/report.txt''])
                    alice_world)))"
    by (simp add: debug_send_events)
  from send_email_effective_recipients [OF debug_send_secrets,
         where recipients = "[''DEBUG'']" and subject = "''Hi''" and body = "''<b>x</b>''"
           and html = True and attachments = "Some [''notes/report.txt'']"]
  have "\<forall>sender rcpts msg.
          Sendmail sender rcpts msg \<in> set (new_events alice_world
            (snd (send_email [''DEBUG''] ''Hi'' ''<b>x</b>'' ''secrets.txt'' ''gmail_username''
                    ''gmail_password'' (Str ''stdout'') True (Some [''notes/report.txt''])
                    alice_world))) \<longrightarrow>
          rcpts = (if [''DEBUG''] = [''DEBUG''] then [''alice@example.com''] else [''DEBUG'']) \<and>
          map_of (headers msg) ''To'' = Some (join_str '', '' rcpts)"
    by (rule conjunct1)
  with ev have "[''alice@example.com'']
       = (if [''DEBUG''] = [''DEBUG''] then [''alice@example.com''] else [''DEBUG''])
     \<and> map_of (headers debug_message) ''To'' = Some (join_str '', '' [''alice@example.com''])"
    by blast
  with ev debug_send_secrets show ?thesis by blast
qed

text \<open>The base64 encoder on the test vectors of RFC 4648, and on 58 bytes, which do
  not fit one line of 57.\<close>

lemma encodebytes_test_vectors:
  "encodebytes [] = []"
  "encodebytes ''f'' = ''Zg==\<newline>''"
  "encodebytes ''fo'' = ''Zm8=\<newline>''"
  "encodebytes ''foobar'' = ''Zm9vYmFy\<newline>''"
  "encodebytes (replicate 58 CHR ''a'') = concat (replicate 19 ''YWFh'') @ ''\<newline>YQ==\<newline>''"
  by code_simp+



text \<open>
  Claim C9. In every \<open>sendmail\<close> call that \<open>send_email\<close> makes, the first part of the
  message is the body, made by \<open>MIMEText\<close> with subtype \<open>html\<close> when the \<open>html\<close> flag is
  true and \<open>plain\<close> when it is false, and no other part of the message is a text part.
\<close>

theorem send_email_body_part:
  assumes "Sendmail sender rcpts text \<in> set (new_events w
             (snd (send_email recipients subject body secrets_file username_tag password_tag
                     log_file html attachments w)))"
  shows "\<exists>rest. parts text = MIMEText body (if html then ''html'' else ''plain'') # rest \<and>
           (\<forall>p \<in> set rest. \<forall>t s. p \<noteq> MIMEText t s)"
proof -
  from send_email_sendmail [OF assms]
  have p: "parts text = (if html then MIMEText body ''html'' else MIMEText body ''plain'')
             # map (\<lambda>a. attachment_part a (the (fs w a))) (attachment_list attachments)"
    by blast
  let ?rest = "map (\<lambda>a. attachment_part a (the (fs w a))) (attachment_list attachments)"
  have hd: "parts text = MIMEText body (if html then ''html'' else ''plain'') # ?rest"
    using p by (cases html) simp_all
  have rest: "\<forall>p \<in> set ?rest. \<forall>t s. p \<noteq> MIMEText t s"
    by (simp add: attachment_part_def)
  show ?thesis
    by (rule exI [of _ ?rest]) (rule conjI [OF hd rest])
qed

theorem send_email_body_part_witness:
  "Sendmail ''alice@example.com'' [''alice@example.com''] debug_message
     \<in> set (new_events alice_world
          (snd (send_email [''DEBUG''] ''Hi'' ''<b>x</b>'' ''secrets.txt'' ''gmail_username''
                  ''gmail_password'' (Str ''stdout'') True (Some [''notes/report.txt''])
                  alice_world)))
   \<and> (\<exists>rest. parts debug_message = MIMEText ''<b>x</b>'' (if True then ''html'' else ''plain'') # rest
         \<and> (\<forall>p \<in> set rest. \<forall>t s. p \<noteq> MIMEText t s))"
proof -
  have ev: "Sendmail ''alice@example.com'' [''alice@example.com''] debug_message
       \<in> set (new_events alice_world
            (snd (send_email [''DEBUG''] ''Hi'' ''<b>x</b>'' ''secrets.txt'' ''gmail_username''
                    ''gmail_password'' (Str ''stdout'') True (Some [''notes/report.txt''])
                    alice_world)))"
    by (simp add: debug_send_events)
  show ?thesis
    using ev send_email_body_part [OF ev] by (rule conjI)
qed

section \<open>The message file\<close>



lemma readline_Nil [simp]: "readline [] = ([], [])"
  by (simp add: readline_def)

lemma file_lines_Nil [simp]: "file_lines [] = []"
  by (simp add: file_lines_def)









section \<open>The test helper\<close>



lemma lg_frame [simp]:
  "fs (lg_info lg f n m w) = fs w" "fs (lg_error lg f n m w) = fs w"
  "fs (lg_debug lg f n m w) = fs w"
  "net (lg_info lg f n m w) = net w" "net (lg_error lg f n m w) = net w"
  "net (lg_debug lg f n m w) = net w"
  "format_exc (lg_info lg f n m w) = format_exc w"
  "format_exc (lg_error lg f n m w) = format_exc w"
  "format_exc (lg_debug lg f n m w) = format_exc w"
  by (simp_all add: lg_info_def lg_error_def lg_debug_def)





text \<open>
  Claim C3 fails on the code. Without an attachment, \<open>test_send_email\<close> passes
  \<open>args.secrets_file\<close>, the script's global, to \<open>send_email\<close> and not its own
  \<open>secrets_file\<close> argument, as the branch with an attachment does. Called from an
  importing module (\<open>args\<close> unbound) with a good secrets file, it logs a \<open>NameError\<close>
  and makes no SMTP call; with \<open>args\<close> bound to another path, that path is read instead.
  Only the script itself, where the two coincide, sends the test message to the sender.
\<close>

theorem test_send_email_ignores_secrets_file_argument:
  "fst (get_secrets ''secrets.txt'' ''gmail_username'' ''gmail_password'' (Str ''stdout'')
          alice_world) = Inr (''alice@example.com'', ''s3cr3t'')
   \<and> fst (test_send_email None ''secrets.txt'' ''gmail_username'' ''gmail_password''
            (Str ''stdout'') False alice_world) = Inr ()
   \<and> net (snd (test_send_email None ''secrets.txt'' ''gmail_username'' ''gmail_password''
            (Str ''stdout'') False alice_world)) = []
   \<and> map message (filter (\<lambda>r. lvl r = ERROR)
        (log (snd (test_send_email None ''secrets.txt'' ''gmail_username'' ''gmail_password''
            (Str ''stdout'') False alice_world))))
       = [''Exception occurred: name '' @ quoted ''args'' @ '' is not defined\<newline>'']
   \<and> net (snd (test_send_email (Some (script_args\<lparr>args_secrets_file := ''elsewhere.txt''\<rparr>))
            ''secrets.txt'' ''gmail_username'' ''gmail_password''
            (Str ''stdout'') False alice_world)) = []
   \<and> map message (filter (\<lambda>r. lvl r = ERROR)
        (log (snd (test_send_email (Some (script_args\<lparr>args_secrets_file := ''elsewhere.txt''\<rparr>))
            ''secrets.txt'' ''gmail_username'' ''gmail_password''
            (Str ''stdout'') False alice_world))))
       = [''File '' @ quoted ''elsewhere.txt'' @ '' does not exist!'',
          ''Exception occurred: File '' @ quoted ''elsewhere.txt'' @ '' does not exist!\<newline>'']
   \<and> net (snd (main_test script_args alice_world))
       = [Connect ''smtp.gmail.com'' 587, Starttls, Login ''alice@example.com'' ''s3cr3t'',
          Sendmail ''alice@example.com'' [''alice@example.com''] test_message, Quit]"
  by code_simp

end
